theory Spec2Isabelle
  imports Complex_Main "HOL-Library.List_Lexorder" "HOL-Library.Char_ord"
begin

section \<open>Requests\<close>

text \<open>
  A route handler receives a \<^verbatim>\<open>NextRequest\<close>. The handlers read three things from it:
  \<^verbatim>\<open>req.ip\<close> (a string or \<^verbatim>\<open>undefined\<close>), \<^verbatim>\<open>req.headers.get(name)\<close> (a string or
  \<^verbatim>\<open>null\<close>) and the query parameters of \<^verbatim>\<open>new URL(req.url).searchParams\<close>, whose
  \<^verbatim>\<open>get(name)\<close> is a string or \<^verbatim>\<open>null\<close>. A nullish value is \<open>None\<close>.
\<close>

type_synonym query = "string \<rightharpoonup> string"

record NextRequest =
  ip :: "string option"
  headers :: "string \<rightharpoonup> string"
  searchParams :: query

text \<open>
  The operator \<^verbatim>\<open>a ?? b\<close>: \<^verbatim>\<open>b\<close> when \<^verbatim>\<open>a\<close> is \<^verbatim>\<open>null\<close> or \<^verbatim>\<open>undefined\<close>, else
  \<^verbatim>\<open>a\<close>. An empty string is not nullish and is kept.
\<close>

fun nullish_or :: "'a option \<Rightarrow> 'a option \<Rightarrow> 'a option" where
  "nullish_or (Some a) b = Some a"
| "nullish_or None b = b"

fun nullish_else :: "'a option \<Rightarrow> 'a \<Rightarrow> 'a" where
  "nullish_else (Some a) d = a"
| "nullish_else None d = d"

text \<open>
  The first line of every rate-limited handler:
  \<^verbatim>\<open>const ip = req.ip ?? req.headers.get('x-forwarded-for') ?? 'anonymous';\<close>
\<close>

definition clientIdentifier :: "NextRequest \<Rightarrow> string" where
  "clientIdentifier req =
     nullish_else (nullish_or (ip req) (headers req ''x-forwarded-for'')) ''anonymous''"

text \<open>
  The bucket a handler charges: the two arguments of its call
  \<^verbatim>\<open>checkRateLimit(ip, scope)\<close>.
\<close>

type_synonym RateLimitKey = "string \<times> string"

definition rateLimitKey :: "NextRequest \<Rightarrow> string \<Rightarrow> RateLimitKey" where
  "rateLimitKey req scope = (clientIdentifier req, scope)"

section \<open>Client identity\<close>

text \<open>
  Claim C9. The rate-limit identifier of a request is the explicit client IP when there
  is one, otherwise the value of the forwarded-for header when there is one, otherwise
  the string "anonymous". In each of the three cases the bucket charged for a scope is
  the pair of that identifier and the scope, so two requests that carry neither source
  are charged to the same "anonymous" bucket of the scope.
\<close>

theorem clientIdentifier_priority_chain:
  "(ip req = Some a \<longrightarrow>
      clientIdentifier req = a \<and> rateLimitKey req scope = (a, scope)) \<and>
   (ip req = None \<and> headers req ''x-forwarded-for'' = Some f \<longrightarrow>
      clientIdentifier req = f \<and> rateLimitKey req scope = (f, scope)) \<and>
   (ip req = None \<and> headers req ''x-forwarded-for'' = None \<longrightarrow>
      clientIdentifier req = ''anonymous'' \<and> rateLimitKey req scope = (''anonymous'', scope)) \<and>
   (ip req = None \<and> headers req ''x-forwarded-for'' = None \<and>
    ip req' = None \<and> headers req' ''x-forwarded-for'' = None \<longrightarrow>
      rateLimitKey req scope = rateLimitKey req' scope)"
  by (simp add: clientIdentifier_def rateLimitKey_def)

theorem clientIdentifier_priority_chain_witness:
  "rateLimitKey \<lparr>ip = Some ''10.0.0.7'', headers = [''x-forwarded-for'' \<mapsto> ''203.0.113.9''],
      searchParams = Map.empty\<rparr> ''api/commitments'' = (''10.0.0.7'', ''api/commitments'') \<and>
   rateLimitKey \<lparr>ip = None, headers = [''x-forwarded-for'' \<mapsto> ''203.0.113.9''],
      searchParams = Map.empty\<rparr> ''api/commitments'' = (''203.0.113.9'', ''api/commitments'') \<and>
   rateLimitKey \<lparr>ip = None, headers = Map.empty, searchParams = Map.empty\<rparr> ''api/attestations''
     = (''anonymous'', ''api/attestations'') \<and>
   clientIdentifier \<lparr>ip = Some [], headers = Map.empty, searchParams = Map.empty\<rparr> = [] \<and>
   rateLimitKey \<lparr>ip = None, headers = Map.empty, searchParams = Map.empty\<rparr> ''api/commitments''
     = rateLimitKey \<lparr>ip = None, headers = [''accept'' \<mapsto> ''*/*''], searchParams = [''page'' \<mapsto> ''2'']\<rparr>
         ''api/commitments''"
  using clientIdentifier_priority_chain
          [of "\<lparr>ip = Some ''10.0.0.7'', headers = [''x-forwarded-for'' \<mapsto> ''203.0.113.9''],
                 searchParams = Map.empty\<rparr>" "''10.0.0.7''" "''api/commitments''" "''203.0.113.9''"
              "\<lparr>ip = None, headers = Map.empty, searchParams = Map.empty\<rparr>"]
        clientIdentifier_priority_chain
          [of "\<lparr>ip = None, headers = [''x-forwarded-for'' \<mapsto> ''203.0.113.9''],
                 searchParams = Map.empty\<rparr>" "''10.0.0.7''" "''api/commitments''" "''203.0.113.9''"
              "\<lparr>ip = None, headers = Map.empty, searchParams = Map.empty\<rparr>"]
        clientIdentifier_priority_chain
          [of "\<lparr>ip = None, headers = Map.empty, searchParams = Map.empty\<rparr>" "''10.0.0.7''"
              "''api/attestations''" "''203.0.113.9''"
              "\<lparr>ip = None, headers = Map.empty, searchParams = Map.empty\<rparr>"]
        clientIdentifier_priority_chain
          [of "\<lparr>ip = Some [], headers = Map.empty, searchParams = Map.empty\<rparr>" "[]"
              "''api/commitments''" "''203.0.113.9''"
              "\<lparr>ip = None, headers = Map.empty, searchParams = Map.empty\<rparr>"]
        clientIdentifier_priority_chain
          [of "\<lparr>ip = None, headers = Map.empty, searchParams = Map.empty\<rparr>" "''10.0.0.7''"
              "''api/commitments''" "''203.0.113.9''"
              "\<lparr>ip = None, headers = [''accept'' \<mapsto> ''*/*''], searchParams = [''page'' \<mapsto> ''2'']\<rparr>"]
  by (simp add: clientIdentifier_def rateLimitKey_def)

end
